theory Spec2Isabelle
  imports Main "HOL-Library.Sublist"
begin

section \<open>Domain Extractor\<close>

text \<open>
  \<^verbatim>\<open>extractDomain(url?: string): string | null\<close> of the background script.
  The platform's URL parser (\<^verbatim>\<open>new URL(url).hostname\<close>) is not part of the
  repository: it is the parameter \<open>host\<close>, with \<open>None\<close> for the TypeError that
  the constructor throws on an unparseable string (caught by the function and turned
  into null). Strings are byte lists; \<^verbatim>\<open>toLowerCase\<close> is modelled on the ASCII
  letters, which is all a parsed hostname holds.
\<close>

definition lower_char :: "char \<Rightarrow> char" where
  "lower_char c =
     (let n = (of_char c :: nat) in if 65 \<le> n \<and> n \<le> 90 then char_of (n + 32) else c)"

definition toLowerCase :: "string \<Rightarrow> string" where
  "toLowerCase s = map lower_char s"

definition startsWith :: "string \<Rightarrow> string \<Rightarrow> bool" where
  "startsWith s p = (take (length p) s = p)"

definition substring :: "string \<Rightarrow> nat \<Rightarrow> string" where
  "substring s n = drop n s"

definition includes_char :: "string \<Rightarrow> char \<Rightarrow> bool" where
  "includes_char s c = (c \<in> set s)"

definition extractDomain :: "(string \<Rightarrow> string option) \<Rightarrow> string option \<Rightarrow> string option" where
  "extractDomain host url =
     (case url of
        None \<Rightarrow> None
      | Some u \<Rightarrow>
          if u = [] then None
          else (case host u of
                  None \<Rightarrow> None
                | Some h \<Rightarrow>
                    let hostname = toLowerCase h;
                        hostname = (if startsWith hostname ''www.'' then substring hostname 4
                                    else hostname)
                    in if \<not> includes_char hostname CHR ''.'' \<or> length hostname < 3 then None
                       else Some hostname))"

text \<open>
  The Domain Extractor as the specification words it, for comparison with the code.
  It shares nothing with the code's side: lowercasing is read off a table of the
  letters.
\<close>

definition lowercase_letter :: "char \<Rightarrow> char" where
  "lowercase_letter c =
     (case map_of (zip ''ABCDEFGHIJKLMNOPQRSTUVWXYZ'' ''abcdefghijklmnopqrstuvwxyz'') c of
        None \<Rightarrow> c
      | Some l \<Rightarrow> l)"

definition strip_www :: "string \<Rightarrow> string" where
  "strip_www h = (if prefix ''www.'' h then drop 4 h else h)"

definition extractDomain_spec :: "(string \<Rightarrow> string option) \<Rightarrow> string option \<Rightarrow> string option" where
  "extractDomain_spec host url =
     (case url of
        None \<Rightarrow> None
      | Some u \<Rightarrow>
          (case host u of
             None \<Rightarrow> None
           | Some h \<Rightarrow>
               let d = strip_www (map lowercase_letter h)
               in if CHR ''.'' \<notin> set d \<or> length d < 3 then None else Some d))"

section \<open>Data model\<close>

text \<open>
  A value read from \<^verbatim>\<open>chrome.storage.sync\<close> under the key
  \<^verbatim>\<open>extensionEnabled\<close>: any JSON value, or undefined when the key was never
  written.
\<close>

datatype jsval = JUndefined | JNull | JBool bool | JNum int | JStr string

record RecentChat =
  chat_domain :: string
  chat_ethAddress :: string
  chat_price :: "string option"
  chat_decimals :: "int option"
  chat_currency :: "string option"
  chat_timestamp :: int

record storage =
  extensionEnabled :: jsval
  blacklistedDomains :: "string list option"
  recentChats :: "RecentChat list option"

record tab =
  tab_id :: "int option"
  tab_url :: "string option"

text \<open>The response payload \<^verbatim>\<open>data.data.name\<close> of the name registry, as the query asks for it.\<close>

record currency_info =
  symbol :: "string option"
  currency_decimals :: "int option"

record listing =
  listing_price :: "string option"
  listing_currency :: "currency_info option"

record token =
  listings :: "listing list option"

record nameData =
  claimedBy :: "string option"
  tokens :: "token list option"

text \<open>
  The module-level variables of the background script, together with the two pieces of
  the browser that its handlers write: the synchronized store and the per-tab badge.
  \<open>popupTimers\<close> lists the domains for which the 500 ms timer that opens the popup
  was set. JavaScript's null and undefined are both \<open>None\<close>.
\<close>

record world =
  isExtensionEnabled :: bool
  currentDomain :: "string option"
  ethAddress :: "string option"
  price :: "string option"
  decimals :: "int option"
  currency :: "string option"
  cachedBlacklistedDomains :: "string list"
  sync :: storage
  badgeText :: "int \<rightharpoonup> string"
  badgeColor :: "int \<rightharpoonup> string"
  popupTimers :: "string list"

text \<open>
  What the browser and the network answer while one handler runs: the URL parser, the
  reply of the registry to the query for a domain, the first tab of
  \<^verbatim>\<open>chrome.tabs.query({active: true, currentWindow: true})\<close>, the clock, and whether
  a storage read or write of this handler fails.
\<close>

datatype graphql_body = Body (has_errors: bool) (data_name: "nameData option option")

datatype http_reply = NetworkError | Reply (reply_ok: bool) (reply_json: "graphql_body option")

datatype fault = NoFault | GetFails | SetFails

record env =
  urlHostname :: "string \<Rightarrow> string option"
  fetchReply :: "string \<Rightarrow> http_reply"
  activeTab :: "tab option"
  dateNow :: int
  storageFault :: fault

definition initial_world :: "storage \<Rightarrow> world" where
  "initial_world st =
     \<lparr>isExtensionEnabled = True, currentDomain = None, ethAddress = None, price = None,
      decimals = None, currency = None, cachedBlacklistedDomains = [], sync = st,
      badgeText = Map.empty, badgeColor = Map.empty, popupTimers = []\<rparr>"

definition empty_storage :: storage where
  "empty_storage = \<lparr>extensionEnabled = JUndefined, blacklistedDomains = None, recentChats = None\<rparr>"

section \<open>Startup\<close>

text \<open>
  The \<^verbatim>\<open>chrome.runtime.onInstalled\<close> listener:
  \<^verbatim>\<open>isExtensionEnabled = result.extensionEnabled !== false;
  cachedBlacklistedDomains = result.blacklistedDomains || [];\<close>
\<close>

definition or_empty :: "'a list option \<Rightarrow> 'a list" where
  "or_empty v = (case v of None \<Rightarrow> [] | Some xs \<Rightarrow> xs)"

definition onInstalled :: "world \<Rightarrow> world" where
  "onInstalled w =
     w\<lparr>isExtensionEnabled := (extensionEnabled (sync w) \<noteq> JBool False),
       cachedBlacklistedDomains := or_empty (blacklistedDomains (sync w))\<rparr>"

section \<open>Name Resolver\<close>

text \<open>
  \<^verbatim>\<open>resolveNameAddress\<close>: every failure (the fetch rejecting, a status that is
  not ok, a body that is not JSON, a body without \<^verbatim>\<open>data\<close>) is thrown inside
  the function's own try block and caught there, so the function returns null and never
  throws.
\<close>

definition resolveNameAddress :: "(string \<Rightarrow> http_reply) \<Rightarrow> string \<Rightarrow> nameData option" where
  "resolveNameAddress fetch d =
     (case fetch d of
        NetworkError \<Rightarrow> None
      | Reply ok body \<Rightarrow>
          if \<not> ok then None
          else (case body of
                  None \<Rightarrow> None
                | Some b \<Rightarrow>
                    if has_errors b then None
                    else (case data_name b of None \<Rightarrow> None | Some n \<Rightarrow> n)))"

record amount =
  amount_price :: "string option"
  amount_decimals :: "int option"
  amount_currency :: "string option"

definition extractPriceFromName :: "nameData \<Rightarrow> amount option" where
  "extractPriceFromName nd =
     (case tokens nd of
        Some (tk # _) \<Rightarrow>
          (case listings tk of
             Some (l # _) \<Rightarrow>
               Some \<lparr>amount_price = listing_price l,
                     amount_decimals = (case listing_currency l of None \<Rightarrow> None
                                        | Some c \<Rightarrow> currency_decimals c),
                     amount_currency = (case listing_currency l of None \<Rightarrow> None
                                        | Some c \<Rightarrow> symbol c)\<rparr>
           | _ \<Rightarrow> None)
      | _ \<Rightarrow> None)"

text \<open>\<^verbatim>\<open>input.split(":")\<close>: the pieces between the separators, never an empty list.\<close>

fun split_on :: "char \<Rightarrow> string \<Rightarrow> string list" where
  "split_on c [] = [[]]"
| "split_on c (x # xs) =
     (if x = c then [] # split_on c xs
      else (case split_on c xs of [] \<Rightarrow> [[x]] | p # ps \<Rightarrow> (x # p) # ps))"

definition nth_opt :: "'a list \<Rightarrow> nat \<Rightarrow> 'a option" where
  "nth_opt xs i = (if i < length xs then Some (xs ! i) else None)"

record caip10 =
  namespace :: "string option"
  chainId :: "string option"
  address :: "string option"

definition parseCAIP10 :: "string \<Rightarrow> caip10" where
  "parseCAIP10 input =
     (let parts = split_on CHR '':'' input
      in \<lparr>namespace = nth_opt parts 0, chainId = nth_opt parts 1, address = nth_opt parts 2\<rparr>)"

section \<open>Tab Monitor\<close>

definition truthy_id :: "int option \<Rightarrow> bool" where
  "truthy_id i = (case i of None \<Rightarrow> False | Some n \<Rightarrow> n \<noteq> 0)"

definition truthy_str :: "string option \<Rightarrow> bool" where
  "truthy_str v = (case v of None \<Rightarrow> False | Some x \<Rightarrow> x \<noteq> [])"

text \<open>
  \<^verbatim>\<open>chrome.action.setBadgeText({text, tabId})\<close> and
  \<^verbatim>\<open>setBadgeBackgroundColor({color, tabId})\<close>. Every call of the script is guarded
  by the truthiness of the tab's id, so the case of no id is never reached.
\<close>

definition setBadgeText :: "string \<Rightarrow> int option \<Rightarrow> world \<Rightarrow> world" where
  "setBadgeText txt tid w =
     (case tid of None \<Rightarrow> w | Some n \<Rightarrow> w\<lparr>badgeText := (badgeText w)(n \<mapsto> txt)\<rparr>)"

definition setBadgeBackgroundColor :: "string \<Rightarrow> int option \<Rightarrow> world \<Rightarrow> world" where
  "setBadgeBackgroundColor col tid w =
     (case tid of None \<Rightarrow> w | Some n \<Rightarrow> w\<lparr>badgeColor := (badgeColor w)(n \<mapsto> col)\<rparr>)"

text \<open>The badge's active marker, the code point U+25CF in UTF-8.\<close>

definition badge_dot :: string where
  "badge_dot = [CHR 0xE2, CHR 0x97, CHR 0x8F]"

text \<open>
  The four assignments \<^verbatim>\<open>ethAddress = undefined; price = undefined;
  decimals = undefined; currency = undefined;\<close> that the script repeats.
\<close>

definition clearOwner :: "world \<Rightarrow> world" where
  "clearOwner w = w\<lparr>ethAddress := None, price := None, decimals := None, currency := None\<rparr>"

definition shouldAutoOpenPopup :: "fault \<Rightarrow> storage \<Rightarrow> string \<Rightarrow> bool" where
  "shouldAutoOpenPopup f st d =
     (if f = GetFails then False
      else (let isInRecentChats = list_ex (\<lambda>chat. chat_domain chat = d) (or_empty (recentChats st));
                isBlacklisted = (d \<in> set (or_empty (blacklistedDomains st)))
            in \<not> isInRecentChats \<and> \<not> isBlacklisted))"

text \<open>
  \<^verbatim>\<open>handleTabUpdate\<close> is an async function: it runs without interruption up to
  its first \<^verbatim>\<open>await\<close> and again from the point where the awaited resolution
  arrives; other handlers may run in between. \<open>handleTabUpdate_begin\<close> is the first
  part; it returns the domain for which a resolution was issued, if any.
  \<open>handleTabUpdate_resume\<close> is the second part, run with the results of the two
  awaited calls.
\<close>

definition handleTabUpdate_begin :: "env \<Rightarrow> world \<Rightarrow> tab \<Rightarrow> world \<times> string option" where
  "handleTabUpdate_begin e w t =
     (if \<not> isExtensionEnabled w then (w, None)
      else
        (let domain = extractDomain (urlHostname e) (tab_url t)
         in if domain \<noteq> currentDomain w then
              (let w1 = w\<lparr>currentDomain := domain\<rparr>
               in if truthy_str domain
                     \<and> or_empty domain \<notin> set (cachedBlacklistedDomains w1)
                  then (w1, domain)
                  else if truthy_id (tab_id t)
                  then (clearOwner (setBadgeText [] (tab_id t) w1), None)
                  else (w1, None))
            else (w, None)))"

definition handleTabUpdate_resume ::
  "world \<Rightarrow> tab \<Rightarrow> string \<Rightarrow> bool \<Rightarrow> nameData option \<Rightarrow> world" where
  "handleTabUpdate_resume w t d shouldShowPopup nameData =
     (case nameData of
        None \<Rightarrow> w
      | Some nd \<Rightarrow>
          (let am = extractPriceFromName nd
           in case claimedBy nd of
                None \<Rightarrow>
                  (let w1 = clearOwner w
                   in if truthy_id (tab_id t) then setBadgeText [] (tab_id t) w1 else w1)
              | Some c \<Rightarrow>
                  (let w1 = w\<lparr>ethAddress := address (parseCAIP10 c),
                               price := (case am of None \<Rightarrow> None | Some a \<Rightarrow> amount_price a),
                               decimals := (case am of None \<Rightarrow> None | Some a \<Rightarrow> amount_decimals a),
                               currency := (case am of None \<Rightarrow> None | Some a \<Rightarrow> amount_currency a)\<rparr>
                   in if truthy_str (ethAddress w1) \<and> truthy_id (tab_id t) then
                        (let w2 = setBadgeBackgroundColor ''#10B981'' (tab_id t)
                                    (setBadgeText badge_dot (tab_id t) w1)
                         in if shouldShowPopup then w2\<lparr>popupTimers := popupTimers w2 @ [d]\<rparr>
                            else w2)
                      else if truthy_id (tab_id t) then setBadgeText [] (tab_id t) w1
                      else w1)))"

text \<open>The handler when nothing else runs between its two parts.\<close>

definition handleTabUpdate :: "env \<Rightarrow> world \<Rightarrow> tab \<Rightarrow> world" where
  "handleTabUpdate e w t =
     (case handleTabUpdate_begin e w t of
        (w1, None) \<Rightarrow> w1
      | (w1, Some d) \<Rightarrow>
          handleTabUpdate_resume w1 t d (shouldAutoOpenPopup (storageFault e) (sync w1) d)
            (resolveNameAddress (fetchReply e) d))"

text \<open>
  The listeners of \<^verbatim>\<open>chrome.tabs.onUpdated\<close> (with whether
  \<^verbatim>\<open>changeInfo.status\<close> is "complete") and \<^verbatim>\<open>chrome.tabs.onActivated\<close>.
\<close>

definition onUpdated :: "env \<Rightarrow> world \<Rightarrow> bool \<Rightarrow> tab \<Rightarrow> world" where
  "onUpdated e w complete t =
     (if complete \<and> truthy_str (tab_url t) then handleTabUpdate e w t else w)"

definition onActivated :: "env \<Rightarrow> world \<Rightarrow> tab \<Rightarrow> world" where
  "onActivated e w t = (if truthy_str (tab_url t) then handleTabUpdate e w t else w)"

section \<open>Recent chats and blacklist\<close>

text \<open>
  The four async mutations. Each returns the state at the moment its promise settles,
  and whether the promise was fulfilled or rejected: a failing storage call rejects at
  its \<^verbatim>\<open>await\<close>, and the rest of the function does not run. The last three
  are given as they run when no other handler comes between their read and their
  write.
\<close>

datatype settled = Fulfilled | Rejected

text \<open>
  \<^verbatim>\<open>addToRecentChats\<close> awaits the read of the stored list and, after building the
  new list, the write; the listener does not await the call, so other handlers, also
  other calls of this function, may run between the two. \<open>addToRecentChats_begin\<close>
  is the read (\<open>None\<close> when it rejects), \<open>addToRecentChats_resume\<close> the rest of
  the function, run with the list that the read returned; the clock is read there.
  \<open>addToRecentChats\<close> is the call when nothing else runs in between.
\<close>

definition addToRecentChats_begin :: "env \<Rightarrow> world \<Rightarrow> RecentChat list option" where
  "addToRecentChats_begin e w =
     (if storageFault e = GetFails then None else Some (or_empty (recentChats (sync w))))"

definition addToRecentChats_resume ::
  "env \<Rightarrow> world \<Rightarrow> RecentChat list \<Rightarrow> string \<Rightarrow> string \<Rightarrow> string option \<Rightarrow> int option
     \<Rightarrow> string option \<Rightarrow> world \<times> settled" where
  "addToRecentChats_resume e w recent domain addr pr dec cur =
     (let rc = filter (\<lambda>chat. chat_domain chat \<noteq> domain) recent;
          rc = \<lparr>chat_domain = domain, chat_ethAddress = addr, chat_price = pr,
                chat_decimals = dec, chat_currency = cur, chat_timestamp = dateNow e\<rparr> # rc;
          rc = take 10 rc
      in if storageFault e = SetFails then (w, Rejected)
         else (w\<lparr>sync := (sync w)\<lparr>recentChats := Some rc\<rparr>\<rparr>, Fulfilled))"

definition addToRecentChats ::
  "env \<Rightarrow> world \<Rightarrow> string \<Rightarrow> string \<Rightarrow> string option \<Rightarrow> int option \<Rightarrow> string option
     \<Rightarrow> world \<times> settled" where
  "addToRecentChats e w domain addr pr dec cur =
     (case addToRecentChats_begin e w of
        None \<Rightarrow> (w, Rejected)
      | Some recent \<Rightarrow> addToRecentChats_resume e w recent domain addr pr dec cur)"

definition removeFromRecentChats :: "env \<Rightarrow> world \<Rightarrow> string \<Rightarrow> world \<times> settled" where
  "removeFromRecentChats e w domain =
     (if storageFault e = GetFails then (w, Rejected)
      else
        (let rc = or_empty (recentChats (sync w));
             rc = filter (\<lambda>chat. chat_domain chat \<noteq> domain) rc
         in if storageFault e = SetFails then (w, Rejected)
            else (w\<lparr>sync := (sync w)\<lparr>recentChats := Some rc\<rparr>\<rparr>, Fulfilled)))"

definition addToBlacklist :: "env \<Rightarrow> world \<Rightarrow> string \<Rightarrow> world \<times> settled" where
  "addToBlacklist e w domain =
     (if storageFault e = GetFails then (w, Rejected)
      else
        (let bl = or_empty (blacklistedDomains (sync w))
         in if domain \<notin> set bl then
              (let bl = bl @ [domain]
               in if storageFault e = SetFails then (w, Rejected)
                  else
                    (let w1 = w\<lparr>sync := (sync w)\<lparr>blacklistedDomains := Some bl\<rparr>,
                                 cachedBlacklistedDomains := bl\<rparr>
                     in case activeTab e of
                          None \<Rightarrow> (w1, Fulfilled)
                        | Some t \<Rightarrow>
                            if truthy_id (tab_id t)
                               \<and> extractDomain (urlHostname e) (tab_url t) = Some domain
                            then (clearOwner (setBadgeText [] (tab_id t) w1), Fulfilled)
                            else (w1, Fulfilled)))
            else (w, Fulfilled)))"

definition removeFromBlacklist :: "env \<Rightarrow> world \<Rightarrow> string \<Rightarrow> world \<times> settled" where
  "removeFromBlacklist e w domain =
     (if storageFault e = GetFails then (w, Rejected)
      else
        (let bl = or_empty (blacklistedDomains (sync w));
             bl = filter (\<lambda>d. d \<noteq> domain) bl
         in if storageFault e = SetFails then (w, Rejected)
            else
              (let w1 = w\<lparr>sync := (sync w)\<lparr>blacklistedDomains := Some bl\<rparr>,
                           cachedBlacklistedDomains := bl\<rparr>
               in case activeTab e of
                    None \<Rightarrow> (w1, Fulfilled)
                  | Some t \<Rightarrow>
                      if extractDomain (urlHostname e) (tab_url t) = Some domain
                      then (handleTabUpdate e w1 t, Fulfilled)
                      else (w1, Fulfilled))))"

section \<open>Message Router\<close>

datatype request =
    GetStatus
  | AddToRecentChats string string "string option" "int option" "string option"
  | GetRecentChats
  | RemoveFromRecentChats string
  | AddToBlacklist string
  | GetBlacklist
  | RemoveFromBlacklist string
  | ToggleExtension
  | OtherAction

record ExtensionStatus =
  status_enabled :: bool
  status_domain :: "string option"
  status_ethAddress :: "string option"
  status_price :: "string option"
  status_decimals :: "int option"
  status_currency :: "string option"

datatype response =
    StatusResponse ExtensionStatus
  | SuccessResponse bool
  | RecentChatsResponse "RecentChat list"
  | BlacklistResponse "string list"
  | EnabledResponse bool

text \<open>
  The \<^verbatim>\<open>chrome.runtime.onMessage\<close> listener: the state after the request's
  work has settled, and the argument of \<^verbatim>\<open>sendResponse\<close> (\<open>None\<close> when it is
  never called). The mutation branches call their async function without awaiting it
  and answer at once. \<open>toggleExtension\<close> is the work of the listener's branch of
  that name, \<open>getStatus\<close> the object that the getStatus branch sends.
\<close>

definition toggleExtension :: "env \<Rightarrow> world \<Rightarrow> world" where
  "toggleExtension e w =
     (let en = \<not> isExtensionEnabled w;
          w1 = w\<lparr>isExtensionEnabled := en\<rparr>;
          w1 = (if storageFault e = SetFails then w1
                else w1\<lparr>sync := (sync w1)\<lparr>extensionEnabled := JBool en\<rparr>\<rparr>)
      in if \<not> isExtensionEnabled w1 then
           (case activeTab e of
              None \<Rightarrow> w1
            | Some t \<Rightarrow> if truthy_id (tab_id t) then setBadgeText [] (tab_id t) w1 else w1)
         else
           (let w2 = clearOwner w1
            in case activeTab e of None \<Rightarrow> w2 | Some t \<Rightarrow> handleTabUpdate e w2 t))"

definition getStatus :: "world \<Rightarrow> ExtensionStatus" where
  "getStatus w =
     \<lparr>status_enabled = isExtensionEnabled w, status_domain = currentDomain w,
      status_ethAddress = ethAddress w, status_price = price w,
      status_decimals = decimals w, status_currency = currency w\<rparr>"

fun onMessage :: "env \<Rightarrow> world \<Rightarrow> request \<Rightarrow> world \<times> response option" where
  "onMessage e w GetStatus = (w, Some (StatusResponse (getStatus w)))"
| "onMessage e w (AddToRecentChats domain addr pr dec cur) =
     (fst (addToRecentChats e w domain addr pr dec cur), Some (SuccessResponse True))"
| "onMessage e w GetRecentChats =
     (w, if storageFault e = GetFails then None
         else Some (RecentChatsResponse (or_empty (recentChats (sync w)))))"
| "onMessage e w (RemoveFromRecentChats domain) =
     (fst (removeFromRecentChats e w domain), Some (SuccessResponse True))"
| "onMessage e w (AddToBlacklist domain) =
     (fst (addToBlacklist e w domain), Some (SuccessResponse True))"
| "onMessage e w GetBlacklist =
     (w, if storageFault e = GetFails then None
         else Some (BlacklistResponse (or_empty (blacklistedDomains (sync w)))))"
| "onMessage e w (RemoveFromBlacklist domain) =
     (fst (removeFromBlacklist e w domain), Some (SuccessResponse True))"
| "onMessage e w ToggleExtension =
     (let w1 = toggleExtension e w in (w1, Some (EnabledResponse (isExtensionEnabled w1))))"
| "onMessage e w OtherAction = (w, None)"

text \<open>
  A run of the background script: each event is handled under its own environment, and
  its work settles before the next event. \<open>Installed\<close> is the firing of
  \<^verbatim>\<open>chrome.runtime.onInstalled\<close>.
\<close>

datatype event = Installed | TabUpdated bool tab | TabActivated tab | Message request

fun handle_event :: "world \<Rightarrow> env \<times> event \<Rightarrow> world" where
  "handle_event w (e, Installed) = onInstalled w"
| "handle_event w (e, TabUpdated complete t) = onUpdated e w complete t"
| "handle_event w (e, TabActivated t) = onActivated e w t"
| "handle_event w (e, Message r) = fst (onMessage e w r)"

text \<open>
  Calls of \<^verbatim>\<open>addToRecentChats\<close> that overlap: a schedule lists, in the order in
  which they run, the reads and the continuations of the calls, each call known by a
  number. The lists read and not yet used are kept beside the state.
\<close>

datatype add_phase =
    AddBegin nat
  | AddResume nat string string "string option" "int option" "string option"

fun handle_add ::
  "world \<times> (nat \<rightharpoonup> RecentChat list) \<Rightarrow> env \<times> add_phase
     \<Rightarrow> world \<times> (nat \<rightharpoonup> RecentChat list)" where
  "handle_add (w, fl) (e, AddBegin i) = (w, fl(i := addToRecentChats_begin e w))"
| "handle_add (w, fl) (e, AddResume i domain addr pr dec cur) =
     (case fl i of
        None \<Rightarrow> (w, fl)
      | Some recent \<Rightarrow>
          (fst (addToRecentChats_resume e w recent domain addr pr dec cur), fl(i := None)))"

definition run_adds :: "world \<Rightarrow> (env \<times> add_phase) list \<Rightarrow> world" where
  "run_adds w steps = fst (foldl handle_add (w, Map.empty) steps)"

definition run :: "world \<Rightarrow> (env \<times> event) list \<Rightarrow> world" where
  "run w evs = foldl handle_event w evs"

section \<open>Sample inputs\<close>

text \<open>
  A stand-in for the platform's URL parser on concrete inputs: it reads URLs of the
  form https://HOST/PATH and gives HOST as written.
\<close>

definition sample_host :: "string \<Rightarrow> string option" where
  "sample_host u =
     (if take 8 u = ''https://'' \<and> 8 < length u
      then Some (takeWhile (\<lambda>c. c \<noteq> CHR ''/'') (drop 8 u)) else None)"

text \<open>
  Sample name-registry replies: a.com and b.com are claimed with a full owner
  identifier and no listing, short.io with an identifier of two segments and one
  listing; every other name is not registered.
\<close>

definition sample_fetch :: "string \<Rightarrow> http_reply" where
  "sample_fetch d =
     (if d = ''a.com'' then
        Reply True (Some (Body False (Some (Some
          \<lparr>claimedBy = Some ''eip155:1:0xaaa'', tokens = Some []\<rparr>))))
      else if d = ''b.com'' then
        Reply True (Some (Body False (Some (Some
          \<lparr>claimedBy = Some ''eip155:1:0xbbb'', tokens = Some []\<rparr>))))
      else if d = ''short.io'' then
        Reply True (Some (Body False (Some (Some
          \<lparr>claimedBy = Some ''eip155:1'',
           tokens = Some [\<lparr>listings = Some [\<lparr>listing_price = Some ''100'',
             listing_currency = Some \<lparr>symbol = Some ''USDC'', currency_decimals = Some 6\<rparr>\<rparr>]\<rparr>]\<rparr>))))
      else Reply True (Some (Body False (Some None))))"

definition sample_env :: env where
  "sample_env =
     \<lparr>urlHostname = sample_host, fetchReply = sample_fetch, activeTab = None, dateNow = 0,
      storageFault = NoFault\<rparr>"

definition sample_tab :: "int \<Rightarrow> string \<Rightarrow> tab" where
  "sample_tab n u = \<lparr>tab_id = Some n, tab_url = Some u\<rparr>"

definition sample_chat :: "nat \<Rightarrow> RecentChat" where
  "sample_chat n =
     \<lparr>chat_domain = replicate n CHR ''x'' @ ''.io'', chat_ethAddress = ''0xabc'',
      chat_price = None, chat_decimals = None, chat_currency = None, chat_timestamp = int n\<rparr>"

section \<open>Notions used to state the properties\<close>

text \<open>
  The addToRecentChats request that stores the entry \<open>c\<close>, and the continuation of
  call \<open>i\<close> that stores it: the entry's fields are the request's fields, its timestamp
  is the clock when the continuation runs.
\<close>

definition add_event :: "env \<Rightarrow> RecentChat \<Rightarrow> env \<times> event" where
  "add_event e c =
     (e\<lparr>dateNow := chat_timestamp c\<rparr>,
      Message (AddToRecentChats (chat_domain c) (chat_ethAddress c) (chat_price c)
                 (chat_decimals c) (chat_currency c)))"

definition add_resume :: "env \<Rightarrow> nat \<Rightarrow> RecentChat \<Rightarrow> env \<times> add_phase" where
  "add_resume e i c =
     (e\<lparr>dateNow := chat_timestamp c\<rparr>,
      AddResume i (chat_domain c) (chat_ethAddress c) (chat_price c) (chat_decimals c)
        (chat_currency c))"

text \<open>The entry that a call builds from its request, stamped with the clock.\<close>

definition new_chat ::
  "env \<Rightarrow> string \<Rightarrow> string \<Rightarrow> string option \<Rightarrow> int option \<Rightarrow> string option \<Rightarrow> RecentChat" where
  "new_chat e domain addr pr dec cur =
     \<lparr>chat_domain = domain, chat_ethAddress = addr, chat_price = pr, chat_decimals = dec,
      chat_currency = cur, chat_timestamp = dateNow e\<rparr>"

definition stored_chats :: "world \<Rightarrow> RecentChat list" where
  "stored_chats w = or_empty (recentChats (sync w))"

text \<open>The list that addToRecentChats writes back, as a function of the list it read.\<close>

definition push_chat :: "RecentChat list \<Rightarrow> RecentChat \<Rightarrow> RecentChat list" where
  "push_chat xs c = take 10 (c # filter (\<lambda>x. chat_domain x \<noteq> chat_domain c) xs)"

text \<open>
  A list of recent chats is well formed when it has at most 10 entries and no two of
  one domain; it is most recent first when no entry is newer than one before it.
  \<open>chats_before T\<close> adds that no entry is newer than the time \<open>T\<close>.
\<close>

definition chats_wf :: "RecentChat list \<Rightarrow> bool" where
  "chats_wf xs = (length xs \<le> 10 \<and> distinct (map chat_domain xs))"

definition most_recent_first :: "RecentChat list \<Rightarrow> bool" where
  "most_recent_first xs = sorted_wrt (\<lambda>a b. chat_timestamp b \<le> chat_timestamp a) xs"

definition chats_before :: "int \<Rightarrow> RecentChat list \<Rightarrow> bool" where
  "chats_before T xs = (most_recent_first xs \<and> list_all (\<lambda>x. chat_timestamp x \<le> T) xs)"


text \<open>A field of the listing that \<^verbatim>\<open>extractPriceFromName\<close> finds: \<^verbatim>\<open>amount?.price\<close> and the like.\<close>

definition amount_field :: "(amount \<Rightarrow> 'a option) \<Rightarrow> nameData \<Rightarrow> 'a option" where
  "amount_field f nd = (case extractPriceFromName nd of None \<Rightarrow> None | Some a \<Rightarrow> f a)"

section \<open>Properties of the Domain Extractor\<close>

lemma startsWith_prefix: "startsWith s p = prefix p s"
  by (auto simp: startsWith_def prefix_def) (metis append_take_drop_id)

lemma toLowerCase_example: "toLowerCase ''www.Example.com'' = ''www.example.com''"
  by code_simp

lemma lower_char_table: "\<forall>c. lower_char c = lowercase_letter c"
  by code_simp

lemma toLowerCase_table: "toLowerCase h = map lowercase_letter h"
  by (simp add: toLowerCase_def lower_char_table)

lemma extractDomain_eq_spec:
  assumes "host [] = None"
  shows "extractDomain host url = extractDomain_spec host url"
  using assms
  by (auto simp: extractDomain_def extractDomain_spec_def startsWith_prefix strip_www_def
      substring_def includes_char_def Let_def toLowerCase_table split: option.splits)

text \<open>
  Claim C7. The Domain Extractor is a function of its input alone. Whenever the URL
  parser rejects the empty string, the code computes what the specification describes:
  an absent or unparseable URL gives absent; otherwise the hostname is lowercased
  (every letter A to Z replaced by its small letter, every other character kept), one
  leading "www." is stripped, and the result is absent when it has no "." or fewer than
  3 characters. A URL with hostname www.Example.com gives example.com.
\<close>

theorem extractDomain_refines_spec:
  assumes "host [] = None"
  shows "extractDomain host url = extractDomain_spec host url
       \<and> (\<forall>u. host u = Some ''www.Example.com''
              \<longrightarrow> extractDomain host (Some u) = Some ''example.com'')"
proof (intro conjI allI impI)
  show "extractDomain host url = extractDomain_spec host url"
    using assms by (rule extractDomain_eq_spec)
next
  fix u assume h: "host u = Some ''www.Example.com''"
  with assms have "u \<noteq> []" by auto
  with h show "extractDomain host (Some u) = Some ''example.com''"
    by (simp add: extractDomain_def toLowerCase_example startsWith_def substring_def
        includes_char_def)
qed

theorem extractDomain_refines_spec_witness:
  "extractDomain sample_host (Some ''https://www.Example.com/'') = Some ''example.com''
   \<and> extractDomain sample_host (Some ''not a url'') = None"
proof -
  have h: "sample_host [] = None"
    by (simp add: sample_host_def)
  have u: "sample_host ''https://www.Example.com/'' = Some ''www.Example.com''"
    by (simp add: sample_host_def)
  have n: "sample_host ''not a url'' = None"
    by (simp add: sample_host_def)
  note t = extractDomain_refines_spec [of sample_host "Some ''not a url''", OF h]
  from t u have "extractDomain sample_host (Some ''https://www.Example.com/'') = Some ''example.com''"
    by blast
  moreover from t have "extractDomain sample_host (Some ''not a url'') = None"
    by (simp add: extractDomain_spec_def n)
  ultimately show ?thesis by blast
qed

lemma toLowerCase_append: "toLowerCase (a @ b) = toLowerCase a @ toLowerCase b"
  by (simp add: toLowerCase_def)

lemma toLowerCase_www: "toLowerCase ''www.'' = ''www.''"
  by code_simp

text \<open>
  Claim C8, as amended. For every hostname D whose lowercased form does not itself
  begin with "www.", a URL with hostname D and a URL with hostname "www." + D give the
  same extracted domain.
\<close>

theorem extractDomain_www_invariant:
  assumes "host u1 = Some D" and "host u2 = Some (''www.'' @ D)"
    and "u1 \<noteq> []" and "u2 \<noteq> []"
    and "\<not> prefix ''www.'' (toLowerCase D)"
  shows "extractDomain host (Some u1) = extractDomain host (Some u2)"
proof -
  have "toLowerCase (''www.'' @ D) = ''www.'' @ toLowerCase D"
    unfolding toLowerCase_append toLowerCase_www ..
  with assms show ?thesis
    by (simp add: extractDomain_def startsWith_prefix substring_def Let_def)
qed

theorem extractDomain_www_invariant_witness:
  "extractDomain sample_host (Some ''https://Example.com/'')
     = extractDomain sample_host (Some ''https://www.Example.com/'')"
proof -
  have h1: "sample_host ''https://Example.com/'' = Some ''Example.com''"
    by (simp add: sample_host_def)
  have h2: "sample_host ''https://www.Example.com/'' = Some (''www.'' @ ''Example.com'')"
    by (simp add: sample_host_def)
  have h3: "''https://Example.com/'' \<noteq> []" and h4: "''https://www.Example.com/'' \<noteq> []"
    by simp_all
  have "toLowerCase ''Example.com'' = ''example.com''" by code_simp
  then have h5: "\<not> prefix ''www.'' (toLowerCase ''Example.com'')" by simp
  show ?thesis
    by (rule extractDomain_www_invariant [OF h1 h2 h3 h4 h5])
qed

text \<open>
  Claim C8 as stated fails for a hostname that begins with "www." itself: only one
  prefix is stripped, so www.a.com gives a.com while www.www.a.com gives www.a.com.
\<close>

theorem extractDomain_www_counterexample:
  "sample_host ''https://www.a.com/'' = Some ''www.a.com''
   \<and> sample_host ''https://www.www.a.com/'' = Some (''www.'' @ ''www.a.com'')
   \<and> extractDomain sample_host (Some ''https://www.a.com/'') = Some ''a.com''
   \<and> extractDomain sample_host (Some ''https://www.www.a.com/'') = Some ''www.a.com''"
  by code_simp

section \<open>Properties of the recent chats\<close>

lemma stored_chats_resume:
  "storageFault e \<noteq> SetFails \<Longrightarrow>
     stored_chats (fst (addToRecentChats_resume e w recent d a p dc c))
       = push_chat recent (new_chat e d a p dc c)"
  by (simp add: addToRecentChats_resume_def stored_chats_def push_chat_def new_chat_def
      Let_def or_empty_def)

lemma resume_set_fails:
  "storageFault e = SetFails \<Longrightarrow> fst (addToRecentChats_resume e w recent d a p dc c) = w"
  by (simp add: addToRecentChats_resume_def Let_def)

lemma stored_chats_add:
  "storageFault e = NoFault \<Longrightarrow>
     stored_chats (fst (addToRecentChats e w d a p dc c))
       = push_chat (stored_chats w) (new_chat e d a p dc c)"
  by (simp add: addToRecentChats_def addToRecentChats_begin_def stored_chats_resume)
     (simp add: stored_chats_def)

lemma new_chat_add_event:
  "new_chat (e\<lparr>dateNow := chat_timestamp c\<rparr>) (chat_domain c) (chat_ethAddress c) (chat_price c)
     (chat_decimals c) (chat_currency c) = c"
  by (simp add: new_chat_def)

lemma stored_chats_add_event:
  "storageFault e = NoFault \<Longrightarrow>
     stored_chats (handle_event w (add_event e c)) = push_chat (stored_chats w) c"
  by (simp add: add_event_def stored_chats_add new_chat_add_event)

lemma stored_chats_run:
  "storageFault e = NoFault \<Longrightarrow>
     stored_chats (run w (map (add_event e) cs)) = foldl push_chat (stored_chats w) cs"
  unfolding run_def
  by (induction cs arbitrary: w) (simp_all add: stored_chats_add_event)

lemma take_filter_distinct:
  "distinct zs \<Longrightarrow> take n (filter (\<lambda>x. x \<noteq> d) (take (Suc n) zs)) = take n (filter (\<lambda>x. x \<noteq> d) zs)"
proof (induction zs arbitrary: n)
  case Nil
  then show ?case by simp
next
  case (Cons z zs)
  show ?case
  proof (cases "z = d")
    case True
    with Cons.prems have "d \<notin> set zs" by simp
    then have "filter (\<lambda>x. x \<noteq> d) zs = zs" by (auto simp: filter_id_conv)
    moreover from \<open>d \<notin> set zs\<close> have "filter (\<lambda>x. x \<noteq> d) (take n zs) = take n zs"
      by (auto simp: filter_id_conv dest: in_set_takeD)
    ultimately show ?thesis using True by simp
  next
    case False
    with Cons show ?thesis by (cases n) simp_all
  qed
qed

lemma remdups_snoc: "remdups (ds @ [d]) = filter (\<lambda>x. x \<noteq> d) (remdups ds) @ [d]"
  by (induction ds) auto

lemma map_domain_filter:
  "map chat_domain (filter (\<lambda>x. chat_domain x \<noteq> d) xs) = filter (\<lambda>x. x \<noteq> d) (map chat_domain xs)"
  by (induction xs) simp_all

lemma domains_foldl_push:
  "map chat_domain (foldl push_chat [] cs) = take 10 (rev (remdups (map chat_domain cs)))"
proof (induction cs rule: rev_induct)
  case Nil
  then show ?case by simp
next
  case (snoc c cs)
  let ?zs = "rev (remdups (map chat_domain cs))"
  let ?d = "chat_domain c"
  have "map chat_domain (foldl push_chat [] (cs @ [c]))
      = take 10 (?d # filter (\<lambda>x. x \<noteq> ?d) (take 10 ?zs))"
    by (simp add: push_chat_def map_domain_filter snoc.IH flip: take_map)
  also have "\<dots> = ?d # take 9 (filter (\<lambda>x. x \<noteq> ?d) (take (Suc 9) ?zs))"
    by (simp add: eval_nat_numeral)
  also have "\<dots> = ?d # take 9 (filter (\<lambda>x. x \<noteq> ?d) ?zs)"
    by (subst take_filter_distinct) simp_all
  also have "\<dots> = take 10 (rev (remdups (map chat_domain (cs @ [c]))))"
    by (simp add: remdups_snoc rev_filter eval_nat_numeral)
  finally show ?case .
qed

lemma hd_foldl_push: "cs \<noteq> [] \<Longrightarrow> hd (foldl push_chat xs cs) = last cs"
  by (induction cs rule: rev_induct) (simp_all add: push_chat_def)

lemma push_chat_front:
  "push_chat xs c = c # take 9 (filter (\<lambda>x. chat_domain x \<noteq> chat_domain c) xs)"
  by (simp add: push_chat_def eval_nat_numeral)

lemma push_chat_evicts:
  assumes "length xs = 10" and "chat_domain c \<notin> chat_domain ` set xs"
  shows "push_chat xs c = c # butlast xs"
proof -
  from assms(2) have "\<forall>x\<in>set xs. chat_domain x \<noteq> chat_domain c"
    by (metis imageI)
  then have "filter (\<lambda>x. chat_domain x \<noteq> chat_domain c) xs = xs"
    by (simp add: filter_id_conv)
  with assms(1) show ?thesis
    by (simp add: push_chat_def butlast_conv_take eval_nat_numeral)
qed

lemma domains_push_chat:
  "map chat_domain (push_chat xs c)
     = take 10 (chat_domain c # filter (\<lambda>x. x \<noteq> chat_domain c) (map chat_domain xs))"
  by (simp add: push_chat_def map_domain_filter flip: take_map)

lemma push_chat_wf: "chats_wf xs \<Longrightarrow> chats_wf (push_chat xs c)"
proof -
  assume "chats_wf xs"
  then have "distinct (chat_domain c # filter (\<lambda>x. x \<noteq> chat_domain c) (map chat_domain xs))"
    by (simp add: chats_wf_def)
  then have "distinct (take 10 (chat_domain c # filter (\<lambda>x. x \<noteq> chat_domain c) (map chat_domain xs)))"
    by (rule distinct_take)
  then have "distinct (map chat_domain (push_chat xs c))"
    unfolding domains_push_chat .
  moreover have "length (push_chat xs c) \<le> 10"
    by (simp add: push_chat_def)
  ultimately show ?thesis
    by (simp add: chats_wf_def)
qed

lemma chats_before_mono: "chats_before T xs \<Longrightarrow> T \<le> T' \<Longrightarrow> chats_before T' xs"
  by (auto simp: chats_before_def list_all_iff)

lemma push_chat_before:
  assumes "chats_before T xs" and "T \<le> chat_timestamp c"
  shows "chats_before (chat_timestamp c) (push_chat xs c)"
proof -
  let ?ys = "filter (\<lambda>x. chat_domain x \<noteq> chat_domain c) xs"
  let ?le = "\<lambda>a b. chat_timestamp b \<le> chat_timestamp a"
  from assms have old: "\<forall>y\<in>set xs. chat_timestamp y \<le> chat_timestamp c"
    by (auto simp: chats_before_def list_all_iff)
  from assms(1) have "sorted_wrt ?le ?ys"
    by (simp add: chats_before_def most_recent_first_def sorted_wrt_filter)
  with old have "sorted_wrt ?le (c # ?ys)"
    by simp
  then have "sorted_wrt ?le (take 10 (c # ?ys))"
    by (rule sorted_wrt_take)
  moreover from old have "\<forall>y\<in>set (take 10 (c # ?ys)). chat_timestamp y \<le> chat_timestamp c"
    by (auto dest: in_set_takeD)
  ultimately show ?thesis
    by (simp add: chats_before_def most_recent_first_def push_chat_def list_all_iff)
qed

lemma handle_add_wf:
  assumes "chats_wf (stored_chats w)" and "\<forall>i rc. fl i = Some rc \<longrightarrow> chats_wf rc"
  shows "chats_wf (stored_chats (fst (handle_add (w, fl) step)))
       \<and> (\<forall>i rc. snd (handle_add (w, fl) step) i = Some rc \<longrightarrow> chats_wf rc)"
proof -
  obtain e ph where step: "step = (e, ph)" by (cases step)
  show ?thesis
  proof (cases ph)
    case (AddBegin i)
    with assms step show ?thesis
      by (auto simp: addToRecentChats_begin_def stored_chats_def)
  next
    case (AddResume i d a p dc c)
    show ?thesis
    proof (cases "fl i")
      case None
      with assms step AddResume show ?thesis by simp
    next
      case (Some recent)
      with assms(2) have r: "chats_wf recent" by blast
      have "chats_wf (stored_chats (fst (addToRecentChats_resume e w recent d a p dc c)))"
      proof (cases "storageFault e = SetFails")
        case True
        with assms(1) show ?thesis by (simp add: resume_set_fails)
      next
        case False
        with r show ?thesis by (simp add: stored_chats_resume push_chat_wf)
      qed
      with assms(2) step AddResume Some show ?thesis by simp
    qed
  qed
qed

lemma foldl_handle_add_wf:
  "chats_wf (stored_chats w) \<Longrightarrow> \<forall>i rc. fl i = Some rc \<longrightarrow> chats_wf rc
     \<Longrightarrow> chats_wf (stored_chats (fst (foldl handle_add (w, fl) steps)))"
proof (induction steps arbitrary: w fl)
  case Nil
  then show ?case by simp
next
  case (Cons step steps)
  obtain w1 fl1 where n: "handle_add (w, fl) step = (w1, fl1)"
    by (cases "handle_add (w, fl) step")
  from handle_add_wf [OF Cons.prems, of step] n
  have "chats_wf (stored_chats w1)" and "\<forall>i rc. fl1 i = Some rc \<longrightarrow> chats_wf rc"
    by simp_all
  then have "chats_wf (stored_chats (fst (foldl handle_add (w1, fl1) steps)))"
    by (rule Cons.IH)
  with n show ?case by simp
qed

lemma handle_add_before:
  assumes "chats_before T (stored_chats w)" and "\<forall>i rc. fl i = Some rc \<longrightarrow> chats_before T rc"
    and "T \<le> dateNow (fst step)"
  shows "chats_before (dateNow (fst step)) (stored_chats (fst (handle_add (w, fl) step)))
       \<and> (\<forall>i rc. snd (handle_add (w, fl) step) i = Some rc
            \<longrightarrow> chats_before (dateNow (fst step)) rc)"
proof -
  obtain e ph where step: "step = (e, ph)" by (cases step)
  from assms(3) step have le: "T \<le> dateNow e" by simp
  from assms(1) le have w': "chats_before (dateNow e) (stored_chats w)"
    by (rule chats_before_mono)
  from assms(2) le have fl': "\<forall>i rc. fl i = Some rc \<longrightarrow> chats_before (dateNow e) rc"
    by (blast intro: chats_before_mono)
  show ?thesis
  proof (cases ph)
    case (AddBegin i)
    with w' fl' step show ?thesis
      by (auto simp: addToRecentChats_begin_def stored_chats_def)
  next
    case (AddResume i d a p dc c)
    show ?thesis
    proof (cases "fl i")
      case None
      with w' fl' step AddResume show ?thesis by simp
    next
      case (Some recent)
      with assms(2) have r: "chats_before T recent" by blast
      have ts: "chat_timestamp (new_chat e d a p dc c) = dateNow e"
        by (simp add: new_chat_def)
      have "chats_before (dateNow e) (stored_chats (fst (addToRecentChats_resume e w recent d a p dc c)))"
      proof (cases "storageFault e = SetFails")
        case True
        with w' show ?thesis by (simp add: resume_set_fails)
      next
        case False
        from r le have "chats_before (chat_timestamp (new_chat e d a p dc c))
                          (push_chat recent (new_chat e d a p dc c))"
          unfolding ts [symmetric] by (rule push_chat_before)
        with False show ?thesis by (simp add: stored_chats_resume ts)
      qed
      with fl' step AddResume Some show ?thesis by simp
    qed
  qed
qed

lemma foldl_handle_add_before:
  "chats_before T (stored_chats w) \<Longrightarrow> \<forall>i rc. fl i = Some rc \<longrightarrow> chats_before T rc
     \<Longrightarrow> sorted (T # map (\<lambda>s. dateNow (fst s)) steps)
     \<Longrightarrow> most_recent_first (stored_chats (fst (foldl handle_add (w, fl) steps)))"
proof (induction steps arbitrary: w fl T)
  case Nil
  then show ?case by (simp add: chats_before_def)
next
  case (Cons step steps)
  obtain w1 fl1 where n: "handle_add (w, fl) step = (w1, fl1)"
    by (cases "handle_add (w, fl) step")
  from Cons.prems(3) have le: "T \<le> dateNow (fst step)"
    and rest: "sorted (dateNow (fst step) # map (\<lambda>s. dateNow (fst s)) steps)"
    by simp_all
  from handle_add_before [OF Cons.prems(1,2) le] n
  have "chats_before (dateNow (fst step)) (stored_chats w1)"
    and "\<forall>i rc. fl1 i = Some rc \<longrightarrow> chats_before (dateNow (fst step)) rc"
    by simp_all
  then have "most_recent_first (stored_chats (fst (foldl handle_add (w1, fl1) steps)))"
    using rest by (rule Cons.IH)
  with n show ?case by simp
qed

text \<open>
  Claim C5, as amended. A call of addToRecentChats reads the stored list and later
  writes back its own entry, with the fields of its request, in front of the list it
  read without that list's entries of the same domain, cut to 10 entries. Under every
  schedule of overlapping calls and storage failures, a stored list that has at most
  10 entries and no two of one domain stays so, and it stays most recent first as long
  as the clock does not run backwards. For a call that nothing interrupts, the list
  read is the stored list: a domain already present moves to the front with the new
  fields, and on a list of 10 entries a domain not in it drops the last, oldest entry.
  For calls that each settle before the next starts, from an empty list, the stored
  domains are the called domains from the most recent call backwards, each once, at
  most 10, and the first entry is the entry of the last call.
\<close>

theorem recentChats_under_overlap:
  "(chats_wf (stored_chats w) \<longrightarrow> chats_wf (stored_chats (run_adds w steps)))
   \<and> (chats_before T (stored_chats w) \<and> sorted (T # map (\<lambda>s. dateNow (fst s)) steps)
        \<longrightarrow> most_recent_first (stored_chats (run_adds w steps)))
   \<and> (storageFault e \<noteq> SetFails
        \<longrightarrow> stored_chats (fst (addToRecentChats_resume e w1 recent d a p dc c))
            = new_chat e d a p dc c
                # take 9 (filter (\<lambda>x. chat_domain x \<noteq> d) recent))
   \<and> (storageFault e = NoFault
        \<longrightarrow> stored_chats (fst (addToRecentChats e w1 d a p dc c))
            = new_chat e d a p dc c
                # take 9 (filter (\<lambda>x. chat_domain x \<noteq> d) (stored_chats w1)))
   \<and> (storageFault e = NoFault \<and> length (stored_chats w1) = 10
          \<and> d \<notin> chat_domain ` set (stored_chats w1)
        \<longrightarrow> stored_chats (fst (addToRecentChats e w1 d a p dc c))
            = new_chat e d a p dc c # butlast (stored_chats w1))
   \<and> (storageFault e = NoFault \<and> stored_chats w = []
        \<longrightarrow> map chat_domain (stored_chats (run w (map (add_event e) cs)))
              = take 10 (rev (remdups (map chat_domain cs)))
          \<and> (cs \<noteq> [] \<longrightarrow> hd (stored_chats (run w (map (add_event e) cs))) = last cs))"
proof -
  have dom: "chat_domain (new_chat e d a p dc c) = d"
    by (simp add: new_chat_def)
  have 1: "chats_wf (stored_chats w) \<longrightarrow> chats_wf (stored_chats (run_adds w steps))"
    unfolding run_adds_def by (simp add: foldl_handle_add_wf)
  have 2: "chats_before T (stored_chats w) \<and> sorted (T # map (\<lambda>s. dateNow (fst s)) steps)
        \<longrightarrow> most_recent_first (stored_chats (run_adds w steps))"
  proof (intro impI, elim conjE)
    assume a: "chats_before T (stored_chats w)"
      and b: "sorted (T # map (\<lambda>s. dateNow (fst s)) steps)"
    show "most_recent_first (stored_chats (run_adds w steps))"
      unfolding run_adds_def by (rule foldl_handle_add_before [OF a _ b]) simp
  qed
  have 3: "storageFault e \<noteq> SetFails
        \<longrightarrow> stored_chats (fst (addToRecentChats_resume e w1 recent d a p dc c))
            = new_chat e d a p dc c
                # take 9 (filter (\<lambda>x. chat_domain x \<noteq> d) recent)"
    by (simp add: stored_chats_resume push_chat_front dom)
  have 4: "storageFault e = NoFault
        \<longrightarrow> stored_chats (fst (addToRecentChats e w1 d a p dc c))
            = new_chat e d a p dc c
                # take 9 (filter (\<lambda>x. chat_domain x \<noteq> d) (stored_chats w1))"
    by (simp add: stored_chats_add push_chat_front dom)
  have 5: "storageFault e = NoFault \<and> length (stored_chats w1) = 10
          \<and> d \<notin> chat_domain ` set (stored_chats w1)
        \<longrightarrow> stored_chats (fst (addToRecentChats e w1 d a p dc c))
            = new_chat e d a p dc c # butlast (stored_chats w1)"
    by (simp add: stored_chats_add push_chat_evicts dom)
  have 6: "storageFault e = NoFault \<and> stored_chats w = []
        \<longrightarrow> map chat_domain (stored_chats (run w (map (add_event e) cs)))
              = take 10 (rev (remdups (map chat_domain cs)))
          \<and> (cs \<noteq> [] \<longrightarrow> hd (stored_chats (run w (map (add_event e) cs))) = last cs)"
    by (simp add: stored_chats_run domains_foldl_push hd_foldl_push)
  from 1 2 3 4 5 6 show ?thesis by (simp only: simp_thms)
qed

lemma sample_chats_stored:
  "stored_chats (initial_world (empty_storage\<lparr>recentChats := Some (map sample_chat (rev [0..<10]))\<rparr>))
     = map sample_chat (rev [0..<10])"
  by (simp add: stored_chats_def initial_world_def or_empty_def)

lemma sample_chat_fresh:
  "chat_domain (sample_chat 10) \<notin> chat_domain ` set (map sample_chat (rev [0..<10]))"
  by code_simp

lemma new_chat_sample:
  "new_chat (sample_env\<lparr>dateNow := 10\<rparr>) (chat_domain (sample_chat 10)) ''0xabc'' None None None
     = sample_chat 10"
  by (simp add: new_chat_def sample_chat_def)

theorem recentChats_under_overlap_witness:
  "chats_wf (stored_chats (run_adds (initial_world empty_storage)
       [(sample_env, AddBegin 1), (sample_env, AddBegin 2),
        add_resume sample_env 1 (sample_chat 1), add_resume sample_env 2 (sample_chat 2)]))
   \<and> most_recent_first (stored_chats (run_adds (initial_world empty_storage)
       [(sample_env, AddBegin 1), (sample_env, AddBegin 2),
        add_resume sample_env 1 (sample_chat 1), add_resume sample_env 2 (sample_chat 2)]))
   \<and> stored_chats (run (initial_world empty_storage)
       (map (add_event sample_env)
          [sample_chat 1, (sample_chat 1)\<lparr>chat_price := Some ''250'', chat_timestamp := 7\<rparr>]))
     = [(sample_chat 1)\<lparr>chat_price := Some ''250'', chat_timestamp := 7\<rparr>]
   \<and> stored_chats (fst (addToRecentChats (sample_env\<lparr>dateNow := 10\<rparr>)
         (initial_world (empty_storage\<lparr>recentChats := Some (map sample_chat (rev [0..<10]))\<rparr>))
         (chat_domain (sample_chat 10)) ''0xabc'' None None None))
     = sample_chat 10 # map sample_chat (rev [1..<10])"
proof -
  let ?w = "initial_world empty_storage"
  let ?w1 = "initial_world (empty_storage\<lparr>recentChats := Some (map sample_chat (rev [0..<10]))\<rparr>)"
  let ?steps = "[(sample_env, AddBegin 1), (sample_env, AddBegin 2),
        add_resume sample_env 1 (sample_chat 1), add_resume sample_env 2 (sample_chat 2)]"
  let ?cs = "[sample_chat 1, (sample_chat 1)\<lparr>chat_price := Some ''250'', chat_timestamp := 7\<rparr>]"
  let ?e = "sample_env\<lparr>dateNow := 10\<rparr>"
  note t = recentChats_under_overlap [where w = ?w and steps = ?steps and T = 0 and e = ?e
      and ?w1.0 = ?w1 and d = "chat_domain (sample_chat 10)" and a = "''0xabc''" and p = None
      and dc = None and c = None and cs = ?cs]
  have empty: "stored_chats ?w = []"
    by (simp add: stored_chats_def initial_world_def empty_storage_def or_empty_def)
  have wf: "chats_wf (stored_chats ?w)"
    unfolding empty by (simp add: chats_wf_def)
  have before: "chats_before 0 (stored_chats ?w)"
    unfolding empty by (simp add: chats_before_def most_recent_first_def)
  have clock: "sorted (0 # map (\<lambda>s. dateNow (fst s)) ?steps)"
    by (simp add: add_resume_def sample_env_def sample_chat_def)
  have nf: "storageFault ?e = NoFault"
    by (simp add: sample_env_def)
  from t wf have 1: "chats_wf (stored_chats (run_adds ?w ?steps))"
    by blast
  from t before clock have 2: "most_recent_first (stored_chats (run_adds ?w ?steps))"
    by blast
  from t nf empty
  have a: "map chat_domain (stored_chats (run ?w (map (add_event ?e) ?cs)))
             = take 10 (rev (remdups (map chat_domain ?cs)))"
    and b: "?cs \<noteq> [] \<longrightarrow> hd (stored_chats (run ?w (map (add_event ?e) ?cs))) = last ?cs"
    by blast+
  have env: "map (add_event ?e) ?cs = map (add_event sample_env) ?cs"
    by (simp add: add_event_def)
  from a have a': "length (stored_chats (run ?w (map (add_event sample_env) ?cs))) = 1"
    unfolding env by (simp flip: length_map [of chat_domain])
  from b have b': "hd (stored_chats (run ?w (map (add_event sample_env) ?cs))) = last ?cs"
    unfolding env by simp
  from a' b' have 3: "stored_chats (run ?w (map (add_event sample_env) ?cs)) = [last ?cs]"
    by (cases "stored_chats (run ?w (map (add_event sample_env) ?cs))") simp_all
  have pre: "length (stored_chats ?w1) = 10
        \<and> chat_domain (sample_chat 10) \<notin> chat_domain ` set (stored_chats ?w1)"
    unfolding sample_chats_stored using sample_chat_fresh by simp
  have bl: "butlast (map sample_chat (rev [0..<10])) = map sample_chat (rev [1..<10])"
    by code_simp
  from t nf pre
  have "stored_chats (fst (addToRecentChats ?e ?w1 (chat_domain (sample_chat 10)) ''0xabc''
            None None None))
          = new_chat ?e (chat_domain (sample_chat 10)) ''0xabc'' None None None
              # butlast (stored_chats ?w1)"
    by blast
  then have 4: "stored_chats (fst (addToRecentChats ?e ?w1 (chat_domain (sample_chat 10)) ''0xabc''
            None None None))
          = sample_chat 10 # map sample_chat (rev [1..<10])"
    unfolding new_chat_sample sample_chats_stored bl .
  from 1 2 3 4 show ?thesis by simp
qed

text \<open>
  Claim C5 as stated fails for calls that overlap. Two calls both read the empty list:
  the second write stores its own entry alone, and the entry of the first call is
  lost. On a list of 10 entries, two overlapping calls for new domains both read that
  list: after the first write the list is the entry 10 before the entries 9 down to 1,
  and the second write, the eleventh distinct domain for that list, drops the newest
  entry 10 and not the oldest entry 1.
\<close>

theorem recentChats_overlap_counterexample:
  "stored_chats (run_adds (initial_world empty_storage)
      [(sample_env, AddBegin 1), (sample_env, AddBegin 2),
       add_resume sample_env 1 (sample_chat 1), add_resume sample_env 2 (sample_chat 2)])
     = [sample_chat 2]
   \<and> stored_chats (run_adds
        (initial_world (empty_storage\<lparr>recentChats := Some (map sample_chat (rev [0..<10]))\<rparr>))
        [(sample_env, AddBegin 1), (sample_env, AddBegin 2),
         add_resume sample_env 1 (sample_chat 10)])
     = sample_chat 10 # map sample_chat (rev [1..<10])
   \<and> stored_chats (run_adds
        (initial_world (empty_storage\<lparr>recentChats := Some (map sample_chat (rev [0..<10]))\<rparr>))
        [(sample_env, AddBegin 1), (sample_env, AddBegin 2),
         add_resume sample_env 1 (sample_chat 10), add_resume sample_env 2 (sample_chat 11)])
     = sample_chat 11 # map sample_chat (rev [1..<10])"
  by code_simp

section \<open>Properties of the Tab Monitor and the Message Router\<close>


lemma setBadgeText_fields [simp]:
  "isExtensionEnabled (setBadgeText x i w) = isExtensionEnabled w"
  "currentDomain (setBadgeText x i w) = currentDomain w"
  "ethAddress (setBadgeText x i w) = ethAddress w"
  "price (setBadgeText x i w) = price w"
  "decimals (setBadgeText x i w) = decimals w"
  "currency (setBadgeText x i w) = currency w"
  "cachedBlacklistedDomains (setBadgeText x i w) = cachedBlacklistedDomains w"
  "sync (setBadgeText x i w) = sync w"
  "popupTimers (setBadgeText x i w) = popupTimers w"
  by (simp_all add: setBadgeText_def split: option.splits)

lemma setBadgeBackgroundColor_fields [simp]:
  "isExtensionEnabled (setBadgeBackgroundColor x i w) = isExtensionEnabled w"
  "currentDomain (setBadgeBackgroundColor x i w) = currentDomain w"
  "ethAddress (setBadgeBackgroundColor x i w) = ethAddress w"
  "price (setBadgeBackgroundColor x i w) = price w"
  "decimals (setBadgeBackgroundColor x i w) = decimals w"
  "currency (setBadgeBackgroundColor x i w) = currency w"
  "cachedBlacklistedDomains (setBadgeBackgroundColor x i w) = cachedBlacklistedDomains w"
  "sync (setBadgeBackgroundColor x i w) = sync w"
  "popupTimers (setBadgeBackgroundColor x i w) = popupTimers w"
  "badgeText (setBadgeBackgroundColor x i w) = badgeText w"
  by (simp_all add: setBadgeBackgroundColor_def split: option.splits)

lemma clearOwner_fields [simp]:
  "isExtensionEnabled (clearOwner w) = isExtensionEnabled w"
  "currentDomain (clearOwner w) = currentDomain w"
  "ethAddress (clearOwner w) = None"
  "price (clearOwner w) = None"
  "decimals (clearOwner w) = None"
  "currency (clearOwner w) = None"
  "cachedBlacklistedDomains (clearOwner w) = cachedBlacklistedDomains w"
  "sync (clearOwner w) = sync w"
  "badgeText (clearOwner w) = badgeText w"
  "popupTimers (clearOwner w) = popupTimers w"
  by (simp_all add: clearOwner_def)

lemma begin_keeps_store:
  "sync (fst (handleTabUpdate_begin e w t)) = sync w"
  "cachedBlacklistedDomains (fst (handleTabUpdate_begin e w t)) = cachedBlacklistedDomains w"
  "isExtensionEnabled (fst (handleTabUpdate_begin e w t)) = isExtensionEnabled w"
  by (simp_all add: handleTabUpdate_begin_def Let_def)

lemma resume_keeps_store:
  "sync (handleTabUpdate_resume w t d sp r) = sync w"
  "cachedBlacklistedDomains (handleTabUpdate_resume w t d sp r) = cachedBlacklistedDomains w"
  "isExtensionEnabled (handleTabUpdate_resume w t d sp r) = isExtensionEnabled w"
  "currentDomain (handleTabUpdate_resume w t d sp r) = currentDomain w"
  by (simp_all add: handleTabUpdate_resume_def Let_def split: option.splits)

lemma handleTabUpdate_keeps_store:
  "sync (handleTabUpdate e w t) = sync w"
  "cachedBlacklistedDomains (handleTabUpdate e w t) = cachedBlacklistedDomains w"
  "isExtensionEnabled (handleTabUpdate e w t) = isExtensionEnabled w"
proof -
  obtain w1 p where b: "handleTabUpdate_begin e w t = (w1, p)"
    by (cases "handleTabUpdate_begin e w t")
  have w1: "w1 = fst (handleTabUpdate_begin e w t)" by (simp add: b)
  show "sync (handleTabUpdate e w t) = sync w"
    "cachedBlacklistedDomains (handleTabUpdate e w t) = cachedBlacklistedDomains w"
    "isExtensionEnabled (handleTabUpdate e w t) = isExtensionEnabled w"
    by (simp_all add: handleTabUpdate_def b resume_keeps_store split: option.splits)
       (simp_all add: w1 begin_keeps_store)
qed


lemma extractDomain_nonempty: "extractDomain host url = Some d \<Longrightarrow> d \<noteq> []"
  by (auto simp: extractDomain_def Let_def split: option.splits if_splits)





text \<open>
  Claim C2. The code departs from it: when the resolver returns no data, the handler
  returns at once. After a.com was resolved, a tab update to a name that is not
  registered leaves the owner of a.com and the active badge in place under the new
  tracked domain.
\<close>

theorem notFound_keeps_stale_owner:
  "resolveNameAddress sample_fetch ''unclaimed.org'' = None
   \<and> currentDomain (run (initial_world empty_storage)
         [(sample_env, TabUpdated True (sample_tab 1 ''https://a.com/'')),
          (sample_env, TabUpdated True (sample_tab 1 ''https://unclaimed.org/''))])
       = Some ''unclaimed.org''
   \<and> ethAddress (run (initial_world empty_storage)
         [(sample_env, TabUpdated True (sample_tab 1 ''https://a.com/'')),
          (sample_env, TabUpdated True (sample_tab 1 ''https://unclaimed.org/''))])
       = Some ''0xaaa''
   \<and> badgeText (run (initial_world empty_storage)
         [(sample_env, TabUpdated True (sample_tab 1 ''https://a.com/'')),
          (sample_env, TabUpdated True (sample_tab 1 ''https://unclaimed.org/''))]) 1
       = Some badge_dot"
  by code_simp

lemma resume_owner:
  assumes "claimedBy nd = Some c"
  shows "ethAddress (handleTabUpdate_resume w t d sp (Some nd)) = address (parseCAIP10 c)"
    and "price (handleTabUpdate_resume w t d sp (Some nd)) = amount_field amount_price nd"
    and "decimals (handleTabUpdate_resume w t d sp (Some nd)) = amount_field amount_decimals nd"
    and "currency (handleTabUpdate_resume w t d sp (Some nd)) = amount_field amount_currency nd"
  using assms
  by (simp_all add: handleTabUpdate_resume_def Let_def amount_field_def)

text \<open>
  Claim C3, as amended. The completion of a resolution is not compared with the
  tracked domain: when it arrives with name data carrying an owner identifier, it
  overwrites the resolved owner fields with its own result, whatever the state and
  whatever domain it was issued for, and it leaves the tracked domain as it is. So a
  stale result is not discarded.
\<close>

theorem resume_overwrites_owner:
  assumes "claimedBy nd = Some c"
  shows "ethAddress (handleTabUpdate_resume w t d sp (Some nd)) = address (parseCAIP10 c)
       \<and> price (handleTabUpdate_resume w t d sp (Some nd)) = amount_field amount_price nd
       \<and> decimals (handleTabUpdate_resume w t d sp (Some nd)) = amount_field amount_decimals nd
       \<and> currency (handleTabUpdate_resume w t d sp (Some nd)) = amount_field amount_currency nd
       \<and> currentDomain (handleTabUpdate_resume w t d sp (Some nd)) = currentDomain w"
  using resume_owner [OF assms, of w t d sp] resume_keeps_store(4) [of w t d sp "Some nd"]
  by blast

theorem resume_overwrites_owner_witness:
  "ethAddress (handleTabUpdate_resume ((initial_world empty_storage)\<lparr>currentDomain := Some ''b.com''\<rparr>)
       (sample_tab 1 ''https://a.com/'') ''a.com'' True
       (Some \<lparr>claimedBy = Some ''eip155:1:0xaaa'', tokens = Some []\<rparr>)) = Some ''0xaaa''
   \<and> currentDomain (handleTabUpdate_resume ((initial_world empty_storage)\<lparr>currentDomain := Some ''b.com''\<rparr>)
       (sample_tab 1 ''https://a.com/'') ''a.com'' True
       (Some \<lparr>claimedBy = Some ''eip155:1:0xaaa'', tokens = Some []\<rparr>)) = Some ''b.com''"
proof -
  have h: "claimedBy \<lparr>claimedBy = Some ''eip155:1:0xaaa'', tokens = Some []\<rparr> = Some ''eip155:1:0xaaa''"
    by simp
  have a: "address (parseCAIP10 ''eip155:1:0xaaa'') = Some ''0xaaa''"
    by code_simp
  show ?thesis
    using resume_overwrites_owner [OF h,
        of "(initial_world empty_storage)\<lparr>currentDomain := Some ''b.com''\<rparr>"
           "sample_tab 1 ''https://a.com/''" "''a.com''" True]
    by (simp add: a)
qed

text \<open>
  Claim C3 as stated fails: resolutions are issued for a.com and then for b.com; the
  one for b.com completes first, the stale one for a.com completes last and its owner
  stands while the tracked domain is b.com.
\<close>

theorem stale_resolution_counterexample:
  "snd (handleTabUpdate_begin sample_env (initial_world empty_storage)
         (sample_tab 1 ''https://a.com/'')) = Some ''a.com''
   \<and> snd (handleTabUpdate_begin sample_env
         (fst (handleTabUpdate_begin sample_env (initial_world empty_storage)
            (sample_tab 1 ''https://a.com/'')))
         (sample_tab 1 ''https://b.com/'')) = Some ''b.com''
   \<and> currentDomain
        (handleTabUpdate_resume
          (handleTabUpdate_resume
            (fst (handleTabUpdate_begin sample_env
              (fst (handleTabUpdate_begin sample_env (initial_world empty_storage)
                 (sample_tab 1 ''https://a.com/'')))
              (sample_tab 1 ''https://b.com/'')))
            (sample_tab 1 ''https://b.com/'') ''b.com'' True
            (resolveNameAddress sample_fetch ''b.com''))
          (sample_tab 1 ''https://a.com/'') ''a.com'' True
          (resolveNameAddress sample_fetch ''a.com''))
       = Some ''b.com''
   \<and> ethAddress
        (handleTabUpdate_resume
          (handleTabUpdate_resume
            (fst (handleTabUpdate_begin sample_env
              (fst (handleTabUpdate_begin sample_env (initial_world empty_storage)
                 (sample_tab 1 ''https://a.com/'')))
              (sample_tab 1 ''https://b.com/'')))
            (sample_tab 1 ''https://b.com/'') ''b.com'' True
            (resolveNameAddress sample_fetch ''b.com''))
          (sample_tab 1 ''https://a.com/'') ''a.com'' True
          (resolveNameAddress sample_fetch ''a.com''))
       = Some ''0xaaa''"
  by code_simp

lemma split_two_no_address:
  "length (split_on CHR '':'' c) = 2 \<Longrightarrow> address (parseCAIP10 c) = None"
  by (simp add: parseCAIP10_def nth_opt_def Let_def)

lemma badge_setBadgeText: "badgeText (setBadgeText x (Some n) w) n = Some x"
  by (simp add: setBadgeText_def)

text \<open>
  Claim C6, as amended. When the owner identifier has exactly two colon-separated
  segments, the address is absent after the resolution completes, the badge of a tab
  with a non-zero id is cleared and no popup is scheduled; the price, decimals and
  currency fields are those of the first listing of the first token, absent when
  there is none.
\<close>

theorem two_segment_owner:
  assumes "claimedBy nd = Some c" and "length (split_on CHR '':'' c) = 2"
  shows "ethAddress (handleTabUpdate_resume w t d sp (Some nd)) = None
       \<and> price (handleTabUpdate_resume w t d sp (Some nd)) = amount_field amount_price nd
       \<and> decimals (handleTabUpdate_resume w t d sp (Some nd)) = amount_field amount_decimals nd
       \<and> currency (handleTabUpdate_resume w t d sp (Some nd)) = amount_field amount_currency nd
       \<and> (tab_id t = Some n \<and> n \<noteq> 0
            \<longrightarrow> badgeText (handleTabUpdate_resume w t d sp (Some nd)) n = Some [])
       \<and> popupTimers (handleTabUpdate_resume w t d sp (Some nd)) = popupTimers w"
proof -
  have a: "address (parseCAIP10 c) = None"
    using assms(2) by (rule split_two_no_address)
  have "tab_id t = Some n \<and> n \<noteq> 0
            \<longrightarrow> badgeText (handleTabUpdate_resume w t d sp (Some nd)) n = Some []"
    using assms(1) a
    by (simp add: handleTabUpdate_resume_def Let_def truthy_str_def truthy_id_def
        badge_setBadgeText)
  moreover have "popupTimers (handleTabUpdate_resume w t d sp (Some nd)) = popupTimers w"
    using assms(1) a
    by (simp add: handleTabUpdate_resume_def Let_def truthy_str_def)
  ultimately show ?thesis
    using resume_owner [OF assms(1), of w t d sp] a by (simp only: simp_thms)
qed

theorem two_segment_owner_witness:
  "ethAddress (handleTabUpdate_resume (initial_world empty_storage)
       (sample_tab 1 ''https://short.io/'') ''short.io'' True
       (Some \<lparr>claimedBy = Some ''eip155:1'', tokens = None\<rparr>)) = None
   \<and> badgeText (handleTabUpdate_resume (initial_world empty_storage)
       (sample_tab 1 ''https://short.io/'') ''short.io'' True
       (Some \<lparr>claimedBy = Some ''eip155:1'', tokens = None\<rparr>)) 1 = Some []"
proof -
  have h1: "claimedBy \<lparr>claimedBy = Some ''eip155:1'', tokens = None\<rparr> = Some ''eip155:1''"
    by simp
  have h2: "length (split_on CHR '':'' ''eip155:1'') = 2"
    by code_simp
  have h3: "tab_id (sample_tab 1 ''https://short.io/'') = Some 1 \<and> (1::int) \<noteq> 0"
    by (simp add: sample_tab_def)
  from two_segment_owner [OF h1 h2, of "initial_world empty_storage"
      "sample_tab 1 ''https://short.io/''" "''short.io''" True 1] h3
  show ?thesis by blast
qed

text \<open>
  Claim C6 as stated fails for the price fields: short.io has a two-segment owner
  identifier and one listing, and the listing's price, decimals and currency are
  stored although the address is absent.
\<close>

theorem two_segment_owner_counterexample:
  "ethAddress (run (initial_world empty_storage)
      [(sample_env, TabUpdated True (sample_tab 1 ''https://short.io/''))]) = None
   \<and> price (run (initial_world empty_storage)
      [(sample_env, TabUpdated True (sample_tab 1 ''https://short.io/''))]) = Some ''100''
   \<and> decimals (run (initial_world empty_storage)
      [(sample_env, TabUpdated True (sample_tab 1 ''https://short.io/''))]) = Some 6
   \<and> currency (run (initial_world empty_storage)
      [(sample_env, TabUpdated True (sample_tab 1 ''https://short.io/''))]) = Some ''USDC''"
  by code_simp

lemma addToBlacklist_stored:
  assumes "storageFault e = NoFault"
  shows "or_empty (blacklistedDomains (sync (fst (addToBlacklist e w d))))
           = (if d \<in> set (or_empty (blacklistedDomains (sync w)))
              then or_empty (blacklistedDomains (sync w))
              else or_empty (blacklistedDomains (sync w)) @ [d])"
  using assms
  by (simp add: addToBlacklist_def Let_def or_empty_def split: option.splits)

lemma removeFromBlacklist_stored:
  assumes "storageFault e = NoFault"
  shows "blacklistedDomains (sync (fst (removeFromBlacklist e w d)))
           = Some (filter (\<lambda>x. x \<noteq> d) (or_empty (blacklistedDomains (sync w))))"
    and "cachedBlacklistedDomains (fst (removeFromBlacklist e w d))
           = filter (\<lambda>x. x \<noteq> d) (or_empty (blacklistedDomains (sync w)))"
  using assms
  by (simp_all add: removeFromBlacklist_def Let_def handleTabUpdate_keeps_store
      split: option.splits)

lemma begin_issues_resolution:
  assumes "isExtensionEnabled w" and "currentDomain w \<noteq> Some d"
    and "extractDomain (urlHostname e) (tab_url t) = Some d"
    and "d \<notin> set (cachedBlacklistedDomains w)"
  shows "snd (handleTabUpdate_begin e w t) = Some d"
proof -
  from assms(3) have "d \<noteq> []" by (rule extractDomain_nonempty)
  with assms show ?thesis
    by (auto simp: handleTabUpdate_begin_def Let_def truthy_str_def or_empty_def)
qed

text \<open>
  Claim C4, as amended. When the storage works, addToBlacklist(d) followed by
  removeFromBlacklist(d) leaves as stored and as cached blacklist the prior stored
  list without d; so a blacklist that did not hold d is back to what it was. After
  the pair, a tab update whose URL gives the domain d issues a resolution for d,
  provided monitoring is enabled and d is not already the tracked domain.
\<close>

theorem blacklist_roundtrip:
  assumes "storageFault e1 = NoFault" and "storageFault e2 = NoFault"
  shows "or_empty (blacklistedDomains (sync
             (run w [(e1, Message (AddToBlacklist d)), (e2, Message (RemoveFromBlacklist d))])))
           = filter (\<lambda>x. x \<noteq> d) (or_empty (blacklistedDomains (sync w)))
       \<and> cachedBlacklistedDomains
             (run w [(e1, Message (AddToBlacklist d)), (e2, Message (RemoveFromBlacklist d))])
           = filter (\<lambda>x. x \<noteq> d) (or_empty (blacklistedDomains (sync w)))
       \<and> (d \<notin> set (or_empty (blacklistedDomains (sync w)))
            \<longrightarrow> or_empty (blacklistedDomains (sync
                   (run w [(e1, Message (AddToBlacklist d)), (e2, Message (RemoveFromBlacklist d))])))
                  = or_empty (blacklistedDomains (sync w)))
       \<and> (isExtensionEnabled
              (run w [(e1, Message (AddToBlacklist d)), (e2, Message (RemoveFromBlacklist d))])
            \<and> currentDomain
              (run w [(e1, Message (AddToBlacklist d)), (e2, Message (RemoveFromBlacklist d))])
                \<noteq> Some d
            \<and> extractDomain (urlHostname e3) (tab_url t) = Some d
            \<longrightarrow> snd (handleTabUpdate_begin e3
                   (run w [(e1, Message (AddToBlacklist d)), (e2, Message (RemoveFromBlacklist d))])
                   t) = Some d)"
proof -
  let ?bl = "or_empty (blacklistedDomains (sync w))"
  let ?w1 = "fst (addToBlacklist e1 w d)"
  let ?w2 = "run w [(e1, Message (AddToBlacklist d)), (e2, Message (RemoveFromBlacklist d))]"
  have w2: "?w2 = fst (removeFromBlacklist e2 ?w1 d)"
    by (simp add: run_def)
  have f: "filter (\<lambda>x. x \<noteq> d) (or_empty (blacklistedDomains (sync ?w1))) = filter (\<lambda>x. x \<noteq> d) ?bl"
    by (simp add: addToBlacklist_stored [OF assms(1)])
  have stored: "or_empty (blacklistedDomains (sync ?w2)) = filter (\<lambda>x. x \<noteq> d) ?bl"
    unfolding w2 removeFromBlacklist_stored(1) [OF assms(2)] f by (simp add: or_empty_def)
  have cached: "cachedBlacklistedDomains ?w2 = filter (\<lambda>x. x \<noteq> d) ?bl"
    unfolding w2 removeFromBlacklist_stored(2) [OF assms(2)] f ..
  have same: "d \<notin> set ?bl \<longrightarrow> or_empty (blacklistedDomains (sync ?w2)) = ?bl"
    unfolding stored by (auto simp: filter_id_conv)
  have "d \<notin> set (cachedBlacklistedDomains ?w2)"
    unfolding cached by simp
  then have again: "isExtensionEnabled ?w2 \<and> currentDomain ?w2 \<noteq> Some d
            \<and> extractDomain (urlHostname e3) (tab_url t) = Some d
            \<longrightarrow> snd (handleTabUpdate_begin e3 ?w2 t) = Some d"
    using begin_issues_resolution by blast
  from stored cached same again show ?thesis by blast
qed

theorem blacklist_roundtrip_witness:
  "or_empty (blacklistedDomains (sync
       (run (initial_world empty_storage)
          [(sample_env, Message (AddToBlacklist ''a.com'')),
           (sample_env, Message (RemoveFromBlacklist ''a.com''))]))) = []
   \<and> snd (handleTabUpdate_begin sample_env
       (run (initial_world empty_storage)
          [(sample_env, Message (AddToBlacklist ''a.com'')),
           (sample_env, Message (RemoveFromBlacklist ''a.com''))])
       (sample_tab 1 ''https://a.com/'')) = Some ''a.com''"
proof -
  let ?w2 = "run (initial_world empty_storage)
          [(sample_env, Message (AddToBlacklist ''a.com'')),
           (sample_env, Message (RemoveFromBlacklist ''a.com''))]"
  have h: "storageFault sample_env = NoFault"
    by (simp add: sample_env_def)
  have bl: "or_empty (blacklistedDomains (sync (initial_world empty_storage))) = []"
    by (simp add: initial_world_def empty_storage_def or_empty_def)
  have en: "isExtensionEnabled ?w2" by code_simp
  have cd: "currentDomain ?w2 \<noteq> Some ''a.com''" by code_simp
  have ex: "extractDomain (urlHostname sample_env) (tab_url (sample_tab 1 ''https://a.com/''))
              = Some ''a.com''"
    by code_simp
  note t = blacklist_roundtrip [OF h h, of "initial_world empty_storage" "''a.com''"
      sample_env "sample_tab 1 ''https://a.com/''"]
  from t have "or_empty (blacklistedDomains (sync ?w2)) = []"
    unfolding bl by simp
  moreover from t en cd ex have "snd (handleTabUpdate_begin sample_env ?w2
       (sample_tab 1 ''https://a.com/'')) = Some ''a.com''"
    by blast
  ultimately show ?thesis by blast
qed

text \<open>
  Claim C4 as stated fails twice. A domain that was blacklisted before the pair is
  not blacklisted after it. And when d is the tracked domain, as after a visit to
  a.com, the tab update that follows the pair issues no resolution.
\<close>

theorem blacklist_roundtrip_counterexample:
  "''a.com'' \<in> set (or_empty (blacklistedDomains (sync
       (initial_world (empty_storage\<lparr>blacklistedDomains := Some [''a.com'']\<rparr>)))))
   \<and> ''a.com'' \<notin> set (or_empty (blacklistedDomains (sync
       (run (initial_world (empty_storage\<lparr>blacklistedDomains := Some [''a.com'']\<rparr>))
          [(sample_env, Message (AddToBlacklist ''a.com'')),
           (sample_env, Message (RemoveFromBlacklist ''a.com''))]))))
   \<and> extractDomain sample_host (tab_url (sample_tab 1 ''https://a.com/'')) = Some ''a.com''
   \<and> snd (handleTabUpdate_begin sample_env
        (run (initial_world empty_storage)
          [(sample_env, TabUpdated True (sample_tab 1 ''https://a.com/'')),
           (sample_env\<lparr>activeTab := Some (sample_tab 1 ''https://a.com/'')\<rparr>,
              Message (AddToBlacklist ''a.com'')),
           (sample_env\<lparr>activeTab := Some (sample_tab 1 ''https://a.com/'')\<rparr>,
              Message (RemoveFromBlacklist ''a.com''))])
        (sample_tab 1 ''https://a.com/'')) = None"
  by code_simp

text \<open>
  Claim C9, as amended. When a storage call fails during a mutation request, the
  mutation's own promise is rejected and the whole state, in memory and stored, is as
  before; the handler does not wait for that promise, and the response is success
  true. (addToBlacklist of a domain already stored makes no write, so a failing write
  does not reach it.)
\<close>

theorem mutation_storage_failure:
  assumes "storageFault e \<noteq> NoFault"
  shows "onMessage e w (AddToRecentChats d a p dc c) = (w, Some (SuccessResponse True))
       \<and> onMessage e w (RemoveFromRecentChats d) = (w, Some (SuccessResponse True))
       \<and> onMessage e w (AddToBlacklist d) = (w, Some (SuccessResponse True))
       \<and> onMessage e w (RemoveFromBlacklist d) = (w, Some (SuccessResponse True))
       \<and> addToRecentChats e w d a p dc c = (w, Rejected)
       \<and> removeFromRecentChats e w d = (w, Rejected)
       \<and> removeFromBlacklist e w d = (w, Rejected)
       \<and> (storageFault e = GetFails \<or> d \<notin> set (or_empty (blacklistedDomains (sync w)))
            \<longrightarrow> addToBlacklist e w d = (w, Rejected))"
proof -
  from assms have f: "storageFault e = GetFails \<or> storageFault e = SetFails"
    by (cases "storageFault e") simp_all
  have 1: "addToRecentChats e w d a p dc c = (w, Rejected)"
    using f
    by (auto simp: addToRecentChats_def addToRecentChats_begin_def addToRecentChats_resume_def
        Let_def)
  have 2: "removeFromRecentChats e w d = (w, Rejected)"
    using f by (auto simp: removeFromRecentChats_def Let_def)
  have 3: "removeFromBlacklist e w d = (w, Rejected)"
    using f by (auto simp: removeFromBlacklist_def Let_def)
  have 4: "fst (addToBlacklist e w d) = w"
    using f by (auto simp: addToBlacklist_def Let_def)
  have 5: "storageFault e = GetFails \<or> d \<notin> set (or_empty (blacklistedDomains (sync w)))
            \<longrightarrow> addToBlacklist e w d = (w, Rejected)"
    using f by (auto simp: addToBlacklist_def Let_def)
  from 1 2 3 4 5 show ?thesis by simp
qed

theorem mutation_storage_failure_witness:
  "onMessage (sample_env\<lparr>storageFault := GetFails\<rparr>) (initial_world empty_storage)
       (RemoveFromBlacklist ''a.com'')
     = (initial_world empty_storage, Some (SuccessResponse True))
   \<and> addToBlacklist (sample_env\<lparr>storageFault := GetFails\<rparr>) (initial_world empty_storage) ''a.com''
     = (initial_world empty_storage, Rejected)"
proof -
  have h: "storageFault (sample_env\<lparr>storageFault := GetFails\<rparr>) \<noteq> NoFault"
    by simp
  have g: "storageFault (sample_env\<lparr>storageFault := GetFails\<rparr>) = GetFails"
    by simp
  from mutation_storage_failure [OF h, of "initial_world empty_storage" "''a.com''"] g
  show ?thesis by blast
qed

text \<open>
  Claim C9 as stated fails: with a failing write, addToBlacklist is rejected and the
  response to the request is success true nevertheless.
\<close>

theorem mutation_storage_failure_counterexample:
  "addToBlacklist (sample_env\<lparr>storageFault := SetFails\<rparr>) (initial_world empty_storage) ''a.com''
     = (initial_world empty_storage, Rejected)
   \<and> snd (onMessage (sample_env\<lparr>storageFault := SetFails\<rparr>) (initial_world empty_storage)
         (AddToBlacklist ''a.com'')) = Some (SuccessResponse True)"
  by (simp add: addToBlacklist_def or_empty_def initial_world_def empty_storage_def)

section \<open>Properties of the startup\<close>







end
